theory Spec2Isabelle
  imports Complex_Main
begin

section \<open>The cart-pole simulator and its training loop\<close>

text \<open>
  The development follows \<^verbatim>\<open>src/cart-pole/index.js\<close> (the class \<^verbatim>\<open>Controller\<close> and,
  after the separator, the class \<^verbatim>\<open>CartPole\<close>) and the click handler of the train button
  in \<^verbatim>\<open>src/cart-pole/ui.js\<close>.

  Conventions of the embedding:
  \<^item> A scalar tensor is the real number it holds, and the tensor operations \<^verbatim>\<open>add\<close>,
    \<^verbatim>\<open>sub\<close>, \<^verbatim>\<open>mul\<close>, \<^verbatim>\<open>div\<close>, \<^verbatim>\<open>tf.cos\<close>, \<^verbatim>\<open>tf.sin\<close> and \<^verbatim>\<open>tf.pow\<close> are the
    operations on reals that their names denote. Rounding to 32-bit floats and the values
    NaN and Infinity are not modelled.
  \<^item> \<^verbatim>\<open>tf.min\<close> and \<^verbatim>\<open>tf.max\<close> are the reductions of the library, see \<open>tf_min\<close> below; the
    minimum and the maximum of two tensors are other functions of the library
    (\<^verbatim>\<open>tf.minimum\<close>, \<^verbatim>\<open>tf.maximum\<close>), which the code does not call.
  \<^item> A property of an object that was never assigned is \<^verbatim>\<open>undefined\<close>: the four state
    variables are of type \<open>real option\<close>, \<open>None\<close> being \<^verbatim>\<open>undefined\<close>.
  \<^item> An exception is a value of type \<open>js_error\<close>; a function that can throw returns a sum
    with \<open>Inl\<close> for the exception.
  \<^item> A call of \<^verbatim>\<open>Math.random()\<close> is an argument of the function that makes the call.
\<close>

subsection \<open>Exceptions and free identifiers\<close>

datatype js_error = Error string | ReferenceError string | TypeError string

text \<open>
  The code is an ES module, hence strict: reading an identifier that no enclosing function,
  block or the module declares throws a \<^verbatim>\<open>ReferenceError\<close>. \<open>scope\<close> lists the names
  that are declared. (The page \<^verbatim>\<open>index.html\<close> and the modules define no global variable.)
\<close>

definition free_identifier :: "string list \<Rightarrow> string \<Rightarrow> js_error + unit" where
  "free_identifier scope name =
     (if name \<in> set scope then Inr () else Inl (ReferenceError name))"

subsection \<open>The class CartPole\<close>

record CartPole =
  gravity :: real
  massCart :: real
  massPole :: real
  totalMass :: real
  cartWidth :: real
  cartHeight :: real
  length_pole :: real
  poleMoment :: real
  forceMag :: real
  tau :: real
  frac_const :: real
  xThreshold :: real
  thetaThreshold :: real
  isDone :: bool
  x :: "real option"
  xDot :: "real option"
  theta :: "real option"
  thetaDot :: "real option"

text \<open>
  \<^verbatim>\<open>setRandomState()\<close>, lines 161 to 166. The four values are bound to \<^verbatim>\<open>const\<close>
  declarations local to the method; nothing is assigned to \<^verbatim>\<open>this\<close>. \<open>r1\<close> to \<open>r4\<close> are
  the results of the four calls of \<^verbatim>\<open>Math.random()\<close>.
\<close>

definition setRandomState :: "real \<Rightarrow> real \<Rightarrow> real \<Rightarrow> real \<Rightarrow> CartPole \<Rightarrow> CartPole" where
  "setRandomState r1 r2 r3 r4 this =
     (let x_const = r1 - 0.5;
          xDot_const = (r2 - 0.5) * 1;
          theta_const = (r3 - 0.5) * 2 * (6 / 360 * 2 * pi);
          thetaDot_const = (r4 - 0.5) * 0.5
      in this)"

text \<open>The constructor, lines 139 to 159: the constants, the thresholds, then \<^verbatim>\<open>setRandomState\<close>.\<close>

definition new_CartPole :: "real \<Rightarrow> real \<Rightarrow> real \<Rightarrow> real \<Rightarrow> CartPole" where
  "new_CartPole r1 r2 r3 r4 =
     setRandomState r1 r2 r3 r4
       \<lparr>gravity = 9.8, massCart = 1.0, massPole = 0.1, totalMass = 1.0 + 0.1,
        cartWidth = 0.2, cartHeight = 0.1, length_pole = 0.5, poleMoment = 0.1 * 0.5,
        forceMag = 10.0, tau = 0.02, frac_const = 4.0 / 3.0,
        xThreshold = 2.4, thetaThreshold = 12 / 360 * 2 * pi, isDone = False,
        x = None, xDot = None, theta = None, thetaDot = None\<rparr>"

text \<open>
  \<^verbatim>\<open>_done()\<close>, lines 203 to 208, here \<open>done_CartPole\<close> (a name cannot begin with an
  underscore). \<^verbatim>\<open>this.x.dataSync()\<close> throws a \<^verbatim>\<open>TypeError\<close> when \<^verbatim>\<open>this.x\<close> is
  undefined, and so does \<^verbatim>\<open>this.theta.dataSync()\<close>; the one-element arrays they return
  compare as the numbers they hold.
\<close>

definition done_CartPole :: "CartPole \<Rightarrow> js_error + bool" where
  "done_CartPole this =
     (case x this of
        None \<Rightarrow> Inl (TypeError ''this.x is undefined'')
      | Some xv \<Rightarrow>
          (case theta this of
             None \<Rightarrow> Inl (TypeError ''this.theta is undefined'')
           | Some th \<Rightarrow>
               Inr (xv < - xThreshold this \<or> xv > xThreshold this \<or>
                    th < - thetaThreshold this \<or> th > thetaThreshold this)))"

text \<open>
  \<^verbatim>\<open>tf.min(x, axis)\<close> and \<^verbatim>\<open>tf.max(x, axis)\<close> of the library reduce the tensor \<^verbatim>\<open>x\<close>
  along the axes that their second argument names; every axis must lie in the range from
  minus the rank of \<^verbatim>\<open>x\<close> up to, and not including, the rank. The code calls them on a
  scalar, whose rank is 0, with a tensor as second argument: no axis lies in the empty
  range, and the call throws an \<^verbatim>\<open>Error\<close> (whose message goes on to print the axis).
  \<open>t\<close> is the value of the scalar, \<open>axis\<close> that of the second argument.
\<close>

definition tf_min :: "real \<Rightarrow> real \<Rightarrow> js_error + real" where
  "tf_min t axis = Inl (Error ''All values in axis param must be in range [-0, 0)'')"

definition tf_max :: "real \<Rightarrow> real \<Rightarrow> js_error + real" where
  "tf_max t axis = Inl (Error ''All values in axis param must be in range [-0, 0)'')"

text \<open>
  \<^verbatim>\<open>lossFn()\<close>, lines 188 to 201. On lines 192 and 196 the inner call, the argument of
  \<^verbatim>\<open>tf.max\<close>, is evaluated first.
\<close>

definition lossFn :: "CartPole \<Rightarrow> js_error + real" where
  "lossFn this =
     (case x this of
        None \<Rightarrow> Inl (TypeError ''this.x is undefined'')
      | Some xv \<Rightarrow>
          (let offAxis = xv - 0.5;
               xLower = xThreshold this + offAxis;
               xUpper = xThreshold this - offAxis
           in case tf_min xLower xUpper of
                Inl e \<Rightarrow> Inl e
              | Inr xMin \<Rightarrow>
                  (case tf_max 0.0 xMin of
                     Inl e \<Rightarrow> Inl e
                   | Inr xMax \<Rightarrow>
                       (case theta this of
                          None \<Rightarrow> Inl (TypeError ''this.theta is undefined'')
                        | Some th \<Rightarrow>
                            (let thetaLower = thetaThreshold this + th;
                                 thetaUpper = thetaThreshold this - th
                             in case tf_min thetaLower thetaUpper of
                                  Inl e \<Rightarrow> Inl e
                                | Inr thetaMin \<Rightarrow>
                                    (case tf_max 0.0 thetaMin of
                                       Inl e \<Rightarrow> Inl e
                                     | Inr thetaMax \<Rightarrow>
                                         (let lossX = (xMax - xThreshold this) ^ 2 * 0.01;
                                              lossTheta = (thetaMax - thetaThreshold this) ^ 2
                                          in Inr (lossX + lossTheta))))))))"

text \<open>
  The body of \<^verbatim>\<open>forward\<close> after its first statement, lines 171 to 185, as a function of the
  value of \<^verbatim>\<open>force\<close>: the two accelerations, the four updates (each right-hand side reads
  the fields as they are when the statement runs), and \<^verbatim>\<open>isDone\<close>. The result is the
  simulator after the step; the value of the \<^verbatim>\<open>return\<close> statement is used by no caller
  and is left out. The divisors are not zero for the constants of the constructor.
\<close>

definition forward_body :: "real \<Rightarrow> CartPole \<Rightarrow> js_error + CartPole" where
  "forward_body force this =
     (case (x this, xDot this, theta this, thetaDot this) of
        (Some xv, Some xd, Some th, Some thd) \<Rightarrow>
          (let cosTheta = cos th;
               sinTheta = sin th;
               term = force + poleMoment this * thd * thd * sinTheta / totalMass this;
               bottomTerm = length_pole this *
                 (frac_const this - massPole this * cosTheta ^ 2 / totalMass this);
               thetaAcc = (gravity this * sinTheta - cosTheta * term) / bottomTerm;
               xAcc = term - poleMoment this * thetaAcc * cosTheta / totalMass this;
               this1 = this\<lparr>x := Some (tau this * xd + xv)\<rparr>;
               this2 = this1\<lparr>xDot := Some (tau this * xAcc + xd)\<rparr>;
               this3 = this2\<lparr>theta := Some (tau this * thd + th)\<rparr>;
               this4 = this3\<lparr>thetaDot := Some (tau this * thetaAcc + thd)\<rparr>
           in case done_CartPole this4 of
                Inl e \<Rightarrow> Inl e
              | Inr d \<Rightarrow> Inr (this4\<lparr>isDone := d\<rparr>))
      | _ \<Rightarrow> Inl (TypeError ''a state variable is undefined''))"

text \<open>
  \<^verbatim>\<open>forward(net)\<close>, lines 168 to 186, for a network \<open>net\<close> (an object with a method
  \<^verbatim>\<open>predict\<close>). Its first statement evaluates \<^verbatim>\<open>net.predict(inputs)\<close>, the argument
  before the call; the method declares \<^verbatim>\<open>net\<close> and its \<^verbatim>\<open>const\<close>s, the module
  declares \<^verbatim>\<open>tf\<close> and \<^verbatim>\<open>CartPole\<close>, and nothing declares \<^verbatim>\<open>inputs\<close>. Were it declared,
  \<^verbatim>\<open>net.predict(inputs) * this.forceMag\<close> would be a JavaScript number (the operator
  \<^verbatim>\<open>*\<close> converts its operands to numbers), and the call \<^verbatim>\<open>force.add(...)\<close> on line 174
  would throw a \<^verbatim>\<open>TypeError\<close>, a number having no method \<^verbatim>\<open>add\<close>. In both cases the
  statements modelled by \<open>forward_body\<close> are not reached.
\<close>

definition cart_pole_scope :: "string list" where
  "cart_pole_scope = [''tf'', ''CartPole'']"

definition forward :: "'net \<Rightarrow> CartPole \<Rightarrow> js_error + CartPole" where
  "forward net this =
     (case free_identifier (''net'' # cart_pole_scope) ''inputs'' of
        Inl e \<Rightarrow> Inl e
      | Inr _ \<Rightarrow> Inl (TypeError ''force.add is not a function''))"

text \<open>
  The angular acceleration as the specification writes it, for comparison with
  \<open>forward_body\<close>: the sum of the force and the pole term is divided by the total mass.
  (The factor of the pole term is \<^verbatim>\<open>poleMoment\<close> and the factor of the squared cosine
  is \<^verbatim>\<open>massPole\<close>, as in the code.)
\<close>

definition thetaAcc_spec :: "CartPole \<Rightarrow> real \<Rightarrow> real \<Rightarrow> real \<Rightarrow> real" where
  "thetaAcc_spec this force th thd =
     (gravity this * sin th -
        cos th * ((force + poleMoment this * thd ^ 2 * sin th) / totalMass this)) /
     (length_pole this * (4 / 3 - massPole this * (cos th) ^ 2 / totalMass this))"

text \<open>
  The two accelerations that lines 174 to 177 compute, as \<open>forward_body\<close> has them: only
  the pole term is divided by the total mass (the call of \<^verbatim>\<open>div\<close> on line 174 stands
  inside the argument of \<^verbatim>\<open>add\<close>).
\<close>

definition thetaAcc_code :: "CartPole \<Rightarrow> real \<Rightarrow> real \<Rightarrow> real \<Rightarrow> real" where
  "thetaAcc_code this force th thd =
     (gravity this * sin th -
        cos th * (force + poleMoment this * thd * thd * sin th / totalMass this)) /
     (length_pole this * (frac_const this - massPole this * (cos th) ^ 2 / totalMass this))"

definition xAcc_code :: "CartPole \<Rightarrow> real \<Rightarrow> real \<Rightarrow> real \<Rightarrow> real" where
  "xAcc_code this force th thd =
     (force + poleMoment this * thd * thd * sin th / totalMass this) -
     poleMoment this * thetaAcc_code this force th thd * cos th / totalMass this"

text \<open>
  The loss as the specification describes it, for comparison with \<open>lossFn\<close>: the margins
  are clamped with the minimum and the maximum of two numbers.
\<close>

definition failureMarginLoss_spec :: "CartPole \<Rightarrow> js_error + real" where
  "failureMarginLoss_spec this =
     (case x this of
        None \<Rightarrow> Inl (TypeError ''this.x is undefined'')
      | Some xv \<Rightarrow>
          (let offAxis = xv - 0.5;
               xLower = xThreshold this + offAxis;
               xUpper = xThreshold this - offAxis;
               xMax = max 0.0 (min xLower xUpper)
           in case theta this of
                None \<Rightarrow> Inl (TypeError ''this.theta is undefined'')
              | Some th \<Rightarrow>
                  (let thetaLower = thetaThreshold this + th;
                       thetaUpper = thetaThreshold this - th;
                       thetaMax = max 0.0 (min thetaLower thetaUpper);
                       lossX = (xMax - xThreshold this) ^ 2 * 0.01;
                       lossTheta = (thetaMax - thetaThreshold this) ^ 2
                   in Inr (lossX + lossTheta))))"

subsection \<open>The method Controller.train\<close>

text \<open>
  What a call of \<^verbatim>\<open>train\<close> does is recorded in a trace: a call of \<^verbatim>\<open>forward\<close> that
  returned, the rendering and the frame awaited by \<^verbatim>\<open>maybeRenderDuringTraining\<close>,
  \<^verbatim>\<open>tf.variableGrads(f)\<close> returning the gradients of the block with loop index \<open>j\<close>,
  \<^verbatim>\<open>optimizer.applyGradients\<close> and \<^verbatim>\<open>tf.dispose\<close> on those gradients (lines 49 and 50),
  \<^verbatim>\<open>tf.nextFrame()\<close> on line 56, and the two calls after the loop (lines 59 and 60),
  whose argument is whatever the identifier \<^verbatim>\<open>gradients\<close> denotes outside the loop body.
\<close>

datatype event =
    Forward
  | Render
  | NextFrame
  | Grads int
  | ApplyGradients int
  | Dispose int
  | ApplyGradients_after_loop
  | Dispose_after_loop

record run =
  pole :: CartPole
  steps :: nat
  trace :: "event list"

definition seqLength :: nat where
  "seqLength = 8"

text \<open>
  The names declared by the module \<^verbatim>\<open>index.js\<close> (its imports, its constant and its two
  classes) and the names declared in \<^verbatim>\<open>train\<close> outside the loop. The loop variable
  \<^verbatim>\<open>j\<close> and the constants \<^verbatim>\<open>f\<close> and \<^verbatim>\<open>gradients\<close> are declared in the loop and
  visible only in its body.
\<close>

definition index_scope :: "string list" where
  "index_scope = [''tf'', ''maybeRenderDuringTraining'', ''setUpUI'', ''MODEL_SAVE_PATH_'',
     ''Controller'', ''SaveableController'']"

definition train_scope :: "string list" where
  "train_scope = [''cartPole'', ''optimizer'', ''maxSteps'', ''seqLength'', ''steps''] @ index_scope"

definition loop_scope :: "string list" where
  "loop_scope = [''j'', ''f'', ''gradients''] @ train_scope"

text \<open>
  \<^verbatim>\<open>maybeRenderDuringTraining\<close>, lines 61 to 66 of \<^verbatim>\<open>ui.js\<close>; \<open>render\<close> is the
  module's variable \<^verbatim>\<open>renderDuringTraining\<close>. The drawing itself is not modelled: it
  is of the object that \<^verbatim>\<open>cartPoleSystem\<close> denotes and can throw; what is proved below of
  a call that enters the body of the loop takes \<open>render\<close> to be false.
\<close>

definition maybeRenderDuringTraining :: "bool \<Rightarrow> run \<Rightarrow> run" where
  "maybeRenderDuringTraining render r =
     (if render then r\<lparr>trace := trace r @ [Render, NextFrame]\<rparr> else r)"

text \<open>
  The inner loop of the closure \<^verbatim>\<open>f\<close>, lines 41 to 44: \<open>k\<close> calls of \<^verbatim>\<open>forward\<close>
  remain; \<^verbatim>\<open>++steps\<close> runs after a call that returned. \<open>fwd\<close> is the method
  \<^verbatim>\<open>forward\<close> of the object passed as \<^verbatim>\<open>cartPole\<close>.
\<close>

fun unroll ::
  "('net \<Rightarrow> CartPole \<Rightarrow> js_error + CartPole) \<Rightarrow> 'net \<Rightarrow> nat \<Rightarrow> run \<Rightarrow> js_error option \<times> run"
where
  "unroll fwd net 0 r = (None, r)"
| "unroll fwd net (Suc k) r =
     (case fwd net (pole r) of
        Inl e \<Rightarrow> (Some e, r)
      | Inr p \<Rightarrow>
          unroll fwd net k (r\<lparr>pole := p, steps := steps r + 1, trace := trace r @ [Forward]\<rparr>))"

text \<open>The closure \<^verbatim>\<open>f\<close>, lines 40 to 46: the block of \<open>seqLength\<close> steps, then the loss.\<close>

definition block_f ::
  "('net \<Rightarrow> CartPole \<Rightarrow> js_error + CartPole) \<Rightarrow> (CartPole \<Rightarrow> js_error + real) \<Rightarrow>
   'net \<Rightarrow> run \<Rightarrow> (js_error + real) \<times> run"
where
  "block_f fwd loss net r =
     (case unroll fwd net seqLength r of
        (Some e, r1) \<Rightarrow> (Inl e, r1)
      | (None, r1) \<Rightarrow>
          (case loss (pole r1) of
             Inl e \<Rightarrow> (Inl e, r1)
           | Inr l \<Rightarrow> (Inr l, r1)))"

text \<open>
  The loop of \<^verbatim>\<open>train\<close>, lines 37 to 57, from the test \<^verbatim>\<open>j < maxSteps\<close> on. The result
  is the exception that left the loop, or \<open>None\<close> when the loop ended by its test or by
  \<^verbatim>\<open>break\<close>. The loop is written for any list \<open>globals\<close> of names that the global
  object defines and for any methods \<open>fwd\<close> and \<open>loss\<close> of the object passed as
  \<^verbatim>\<open>cartPole\<close>; \<^verbatim>\<open>tf.variableGrads(f)\<close> calls \<open>f\<close> once.
\<close>

function episode ::
  "string list \<Rightarrow> ('net \<Rightarrow> CartPole \<Rightarrow> js_error + CartPole) \<Rightarrow> (CartPole \<Rightarrow> js_error + real) \<Rightarrow>
   bool \<Rightarrow> 'net \<Rightarrow> int \<Rightarrow> int \<Rightarrow> run \<Rightarrow> js_error option \<times> run"
where
  "episode globals fwd loss render net maxSteps j r =
     (if j < maxSteps then
        (case free_identifier (loop_scope @ globals) ''cartPoleSystem'' of
           Inl e \<Rightarrow> (Some e, r)
         | Inr _ \<Rightarrow>
             (case block_f fwd loss net (maybeRenderDuringTraining render r) of
                (Inl e, r1) \<Rightarrow> (Some e, r1)
              | (Inr l, r1) \<Rightarrow>
                  (let r2 = r1\<lparr>trace := trace r1 @ [Grads j, ApplyGradients j, Dispose j]\<rparr>
                   in if isDone (pole r2) then (None, r2)
                      else episode globals fwd loss render net maxSteps (j + 1)
                             (r2\<lparr>trace := trace r2 @ [NextFrame]\<rparr>))))
      else (None, r))"
  by pat_completeness auto
termination
  by (relation "measure (\<lambda>(globals, fwd, loss, render, net, maxSteps, j, r). nat (maxSteps - j))")
    auto

declare episode.simps [simp del]

text \<open>
  \<^verbatim>\<open>train(cartPole, optimizer, maxSteps)\<close>, lines 33 to 62, with the same parameters as
  the loop and the method \<open>reset\<close> that line 36 calls. The result is the exception that
  rejects the promise or the number of steps that resolves it, with the final state.
\<close>

definition train_with ::
  "string list \<Rightarrow> (CartPole \<Rightarrow> CartPole) \<Rightarrow> ('net \<Rightarrow> CartPole \<Rightarrow> js_error + CartPole) \<Rightarrow>
   (CartPole \<Rightarrow> js_error + real) \<Rightarrow> bool \<Rightarrow> 'net \<Rightarrow> CartPole \<Rightarrow> int \<Rightarrow> (js_error + nat) \<times> run"
where
  "train_with globals reset fwd loss render net cartPole maxSteps =
     (case episode globals fwd loss render net maxSteps 0
             \<lparr>pole = reset cartPole, steps = 0, trace = []\<rparr> of
        (Some e, r) \<Rightarrow> (Inl e, r)
      | (None, r) \<Rightarrow>
          (case free_identifier (train_scope @ globals) ''gradients'' of
             Inl e \<Rightarrow> (Inl e, r)
           | Inr _ \<Rightarrow>
               (Inr (steps r),
                r\<lparr>trace := trace r @ [ApplyGradients_after_loop, Dispose_after_loop]\<rparr>)))"

text \<open>
  The method as the repository runs it: on a \<^verbatim>\<open>CartPole\<close>, with no global variable
  defined. \<open>net\<close> is \<^verbatim>\<open>this.net\<close>, \<open>r1\<close> to \<open>r4\<close> are the random numbers drawn by
  \<^verbatim>\<open>setRandomState\<close>, and \<open>maxSteps\<close> is an integer. The optimizer is present through
  the calls of \<^verbatim>\<open>applyGradients\<close> in the trace.
\<close>

definition train ::
  "bool \<Rightarrow> 'net \<Rightarrow> CartPole \<Rightarrow> int \<Rightarrow> real \<Rightarrow> real \<Rightarrow> real \<Rightarrow> real \<Rightarrow> (js_error + nat) \<times> run"
where
  "train render net cartPole maxSteps r1 r2 r3 r4 =
     train_with [] (setRandomState r1 r2 r3 r4) forward lossFn render net cartPole maxSteps"

text \<open>
  A trace applies gradients at once when every \<open>Grads j\<close> in it is followed directly by
  \<open>ApplyGradients j\<close> and no \<open>ApplyGradients\<close> stands anywhere else.
\<close>

fun applied_at_once :: "event list \<Rightarrow> bool" where
  "applied_at_once [] = True"
| "applied_at_once (Grads j # ApplyGradients k # es) = (j = k \<and> applied_at_once es)"
| "applied_at_once (Grads j # es) = False"
| "applied_at_once (ApplyGradients k # es) = False"
| "applied_at_once (e # es) = applied_at_once es"

subsection \<open>An environment in which the body of the loop runs\<close>

text \<open>
  The body of the loop runs only where \<^verbatim>\<open>cartPoleSystem\<close> is defined, and a block is
  completed only where \<^verbatim>\<open>forward\<close> and \<^verbatim>\<open>lossFn\<close> return. To see what the loop does
  then, it is run with a global object that defines the two names that \<^verbatim>\<open>train\<close> reads,
  with the statements of \<^verbatim>\<open>forward\<close> after the first at a given force, and with the loss
  of the specification. \<open>rest_at xv d\<close> is a simulator of the constructor with the cart at
  \<open>xv\<close>, the pole upright, both at rest, and \<^verbatim>\<open>isDone\<close> = \<open>d\<close>.
\<close>

definition globals_bound :: "string list" where
  "globals_bound = [''cartPoleSystem'', ''gradients'']"

definition forward_from :: "real \<Rightarrow> 'net \<Rightarrow> CartPole \<Rightarrow> js_error + CartPole" where
  "forward_from force net this = forward_body force this"

definition rest_at :: "real \<Rightarrow> bool \<Rightarrow> CartPole" where
  "rest_at xv d =
     (new_CartPole 0.5 0.5 0.5 0.5)
       \<lparr>isDone := d, xDot := Some 0, thetaDot := Some 0, x := Some xv, theta := Some 0\<rparr>"

subsection \<open>The click handler of the train button\<close>

text \<open>
  The names declared by the module \<^verbatim>\<open>ui.js\<close>, those declared in \<^verbatim>\<open>setUpUI\<close> and in the
  handler, and those declared in the body of the handler's loop.
\<close>

definition ui_scope :: "string list" where
  "ui_scope = [''tf'', ''tfvis'', ''embed'', ''CartPole'', ''SaveableController'', ''mean'', ''sum'',
     ''appStatus'', ''storedModelStatusInput'', ''createModelButton'', ''deleteStoredModelButton'',
     ''cartPoleCanvas'', ''numIterationsInput'', ''maxStepsInput'', ''learningRateInput'',
     ''renderDuringTrainingCheckbox'', ''trainButton'', ''testButton'', ''trainStatus'',
     ''trainSpeed'', ''trainProgress'', ''stepsContainer'', ''net'', ''stopRequested'',
     ''logStatus'', ''renderDuringTraining'', ''maybeRenderDuringTraining'', ''stepValues'',
     ''plotSteps'', ''disableModelControls'', ''enableModelControls'', ''renderCartPole'',
     ''updateUIControlState'', ''setUpUI'']"

definition click_scope :: "string list" where
  "click_scope = [''cartPole'', ''trainIterations'', ''maxSteps'', ''learningRate'', ''optimizer'',
     ''t0''] @ ui_scope"

definition iteration_scope :: "string list" where
  "iteration_scope = [''i'', ''steps'', ''t1'', ''stepsPerSecond''] @ click_scope"

text \<open>
  The state the handler works on: the text of the button, the flag \<^verbatim>\<open>stopRequested\<close>, the
  optimizer (\<open>None\<close> until \<^verbatim>\<open>tf.train.adam(learningRate)\<close> has run, then the learning rate
  it was given), and the final state of every call of \<^verbatim>\<open>train\<close> made so far.

  \<^verbatim>\<open>Number.parseInt\<close> and \<^verbatim>\<open>Number.parseFloat\<close> return a number or NaN, which is
  \<open>None\<close> here; a comparison with NaN is false, so \<^verbatim>\<open>!(NaN > 0)\<close> is true.
\<close>

record session =
  trainButtonText :: string
  stopRequested :: bool
  optimizer :: "real option option"
  episodes :: "run list"

text \<open>
  The loop of the handler, lines 252 to 270, from the test \<^verbatim>\<open>i < trainIterations\<close> on.
  \<open>rnd\<close> gives the random numbers that the calls of \<^verbatim>\<open>train\<close> draw. No click arrives
  while the loop runs, so \<^verbatim>\<open>stopRequested\<close> keeps its value.
\<close>

function iterations ::
  "bool \<Rightarrow> 'net \<Rightarrow> CartPole \<Rightarrow> (int \<Rightarrow> real) \<Rightarrow> int \<Rightarrow> int \<Rightarrow> int \<Rightarrow> session \<Rightarrow>
   js_error option \<times> session"
where
  "iterations render net cartPole rnd trainIterations maxSteps i s =
     (if i < trainIterations then
        (case train render net cartPole maxSteps
                (rnd (4 * i)) (rnd (4 * i + 1)) (rnd (4 * i + 2)) (rnd (4 * i + 3)) of
           (Inl e, r) \<Rightarrow> (Some e, s\<lparr>episodes := episodes s @ [r]\<rparr>)
         | (Inr n, r) \<Rightarrow>
             (let s1 = s\<lparr>episodes := episodes s @ [r]\<rparr>
              in case free_identifier iteration_scope ''gameSteps'' of
                   Inl e \<Rightarrow> (Some e, s1)
                 | Inr _ \<Rightarrow>
                     (case free_identifier iteration_scope ''onIterationEnd'' of
                        Inl e \<Rightarrow> (Some e, s1)
                      | Inr _ \<Rightarrow>
                          if stopRequested s1 then (None, s1)
                          else iterations render net cartPole rnd trainIterations maxSteps
                                 (i + 1) s1)))
      else (None, s))"
  by pat_completeness auto
termination
  by (relation "measure (\<lambda>(render, net, cartPole, rnd, trainIterations, maxSteps, i, s).
        nat (trainIterations - i))") auto

declare iterations.simps [simp del]

text \<open>
  The handler, lines 227 to 276. \<open>trainIterations\<close>, \<open>maxSteps\<close> and \<open>learningRate\<close> are
  the values parsed from the three input fields; the two tests are \<^verbatim>\<open>!(trainIterations > 0)\<close>
  and \<^verbatim>\<open>!(maxSteps > 1)\<close>, and nothing tests \<^verbatim>\<open>learningRate\<close>, which goes to
  \<^verbatim>\<open>tf.train.adam\<close> as it is. The message of a thrown \<^verbatim>\<open>Error\<close> is given without the
  number that the code appends to it.
\<close>

definition click_train ::
  "int option \<Rightarrow> int option \<Rightarrow> real option \<Rightarrow> bool \<Rightarrow> 'net \<Rightarrow> CartPole \<Rightarrow> (int \<Rightarrow> real) \<Rightarrow>
   session \<Rightarrow> js_error option \<times> session"
where
  "click_train trainIterations maxSteps learningRate render net cartPole rnd s =
     (if trainButtonText s = ''Stop'' then (None, s\<lparr>stopRequested := True\<rparr>)
      else
        (let s1 = s\<lparr>trainButtonText := ''Stop''\<rparr>
         in case trainIterations of
              None \<Rightarrow> (Some (Error ''Invalid number of iterations''), s1)
            | Some n \<Rightarrow>
                if \<not> (n > 0) then (Some (Error ''Invalid number of iterations''), s1)
                else
                  (case maxSteps of
                     None \<Rightarrow> (Some (Error ''Invalid max. steps per game''), s1)
                   | Some m \<Rightarrow>
                       if \<not> (m > 1) then (Some (Error ''Invalid max. steps per game''), s1)
                       else
                         (let s2 = s1\<lparr>optimizer := Some learningRate\<rparr>
                          in case free_identifier click_scope ''onIterationEnd'' of
                               Inl e \<Rightarrow> (Some e, s2)
                             | Inr _ \<Rightarrow>
                                 (case iterations render net cartPole rnd n m 0
                                         (s2\<lparr>stopRequested := False\<rparr>) of
                                    (Some e, s3) \<Rightarrow> (Some e, s3)
                                  | (None, s3) \<Rightarrow>
                                      (None, s3\<lparr>trainButtonText := ''Train''\<rparr>))))))"

text \<open>
  A configuration is valid for the handler when both counts are numbers, the number of
  iterations above 0 and the number of steps above 1.
\<close>

definition js_gt :: "int option \<Rightarrow> int \<Rightarrow> bool" where
  "js_gt v k = (case v of None \<Rightarrow> False | Some n \<Rightarrow> n > k)"

text \<open>Inputs for the closed examples below.\<close>

definition half_draws :: "int \<Rightarrow> real" where
  "half_draws i = 0.5"

definition idle_session :: session where
  "idle_session = \<lparr>trainButtonText = ''Train'', stopRequested = False, optimizer = None,
     episodes = []\<rparr>"

subsection \<open>Predicates on traces used in the proofs\<close>

text \<open>An event is quiet when it neither computes nor applies gradients inside the loop.\<close>

fun quiet_event :: "event \<Rightarrow> bool" where
  "quiet_event (Grads j) = False"
| "quiet_event (ApplyGradients j) = False"
| "quiet_event e = True"

definition quiet :: "event list \<Rightarrow> bool" where
  "quiet es = list_all quiet_event es"



text \<open>
  The invariant of the loop before the block with index \<open>j\<close>: gradients were applied at
  once, each block's gradients as often as they were computed and at most once, and no
  block from \<open>j\<close> on has computed any.
\<close>

definition trace_inv :: "int \<Rightarrow> event list \<Rightarrow> bool" where
  "trace_inv j tr =
     (applied_at_once tr \<and>
      (\<forall>k. count_list tr (ApplyGradients k) = count_list tr (Grads k) \<and>
           count_list tr (Grads k) \<le> 1 \<and>
           (if j \<le> k then count_list tr (Grads k) = 0 else True)))"


section \<open>Facts about the simulator\<close>

lemma new_CartPole_thresholds [simp]:
  "xThreshold (new_CartPole r1 r2 r3 r4) = 2.4"
  "thetaThreshold (new_CartPole r1 r2 r3 r4) = 12 / 360 * 2 * pi"
  by (simp_all add: new_CartPole_def setRandomState_def)

lemma new_CartPole_state:
  "x (new_CartPole r1 r2 r3 r4) = None"
  "xDot (new_CartPole r1 r2 r3 r4) = None"
  "theta (new_CartPole r1 r2 r3 r4) = None"
  "thetaDot (new_CartPole r1 r2 r3 r4) = None"
  "isDone (new_CartPole r1 r2 r3 r4) = False"
  by (simp_all add: new_CartPole_def setRandomState_def)

text \<open>
  \<^verbatim>\<open>lossFn\<close> returns no loss: with \<^verbatim>\<open>this.x\<close> undefined line 189 throws a
  \<^verbatim>\<open>TypeError\<close>, and with \<^verbatim>\<open>this.x\<close> a number the call of \<^verbatim>\<open>tf.min\<close> on line 192 throws
  an \<^verbatim>\<open>Error\<close>.
\<close>

lemma lossFn_undefined_state:
  "lossFn (new_CartPole r1 r2 r3 r4) = Inl (TypeError ''this.x is undefined'')"
  by (simp add: lossFn_def new_CartPole_state)

lemma lossFn_numeric_state:
  "lossFn (this\<lparr>x := Some xv\<rparr>) =
     Inl (Error ''All values in axis param must be in range [-0, 0)'')"
  by (simp add: lossFn_def tf_min_def Let_def)

text \<open>
  The loss of the specification. The margin of one coordinate: \<open>t\<close> is the threshold,
  \<open>d\<close> the distance from the centre.
\<close>

lemma clamped_margin:
  assumes "0 \<le> (t::real)"
  shows "(max 0 (min (t + d) (t - d)) - t) ^ 2 = (min \<bar>d\<bar> t) ^ 2"
proof -
  have "max 0 (min (t + d) (t - d)) - t = - min \<bar>d\<bar> t"
    using assms by (auto simp: min_def max_def abs_if)
  then show ?thesis by simp
qed

lemma failureMarginLoss_spec_closed_form:
  assumes "0 \<le> xThreshold this" and "0 \<le> thetaThreshold this"
  shows "failureMarginLoss_spec (this\<lparr>x := Some xv, theta := Some th\<rparr>) =
     Inr ((min \<bar>xv - 0.5\<bar> (xThreshold this)) ^ 2 * 0.01 +
          (min \<bar>th\<bar> (thetaThreshold this)) ^ 2)"
  using assms by (simp add: failureMarginLoss_spec_def Let_def clamped_margin)

lemma failureMarginLoss_spec_new_CartPole:
  "failureMarginLoss_spec ((new_CartPole r1 r2 r3 r4)\<lparr>x := Some xv, theta := Some th\<rparr>) =
     Inr ((min \<bar>xv - 0.5\<bar> 2.4) ^ 2 * 0.01 + (min \<bar>th\<bar> (12 / 360 * 2 * pi)) ^ 2)"
  by (subst failureMarginLoss_spec_closed_form) simp_all

text \<open>
  With \<open>x\<close> = 0.5 the loss of the specification is 0 at \<open>theta\<close> = 0 and strictly
  increasing in the absolute value of \<open>theta\<close> up to the threshold.
\<close>

lemma failureMarginLoss_spec_increasing:
  assumes "\<bar>a\<bar> < \<bar>b\<bar>" and "\<bar>b\<bar> \<le> thetaThreshold (new_CartPole r1 r2 r3 r4)"
  shows "failureMarginLoss_spec ((new_CartPole r1 r2 r3 r4)\<lparr>x := Some 0.5, theta := Some 0\<rparr>)
       = Inr 0 \<and>
     (\<exists>u v. failureMarginLoss_spec
              ((new_CartPole r1 r2 r3 r4)\<lparr>x := Some 0.5, theta := Some a\<rparr>) = Inr u \<and>
            failureMarginLoss_spec
              ((new_CartPole r1 r2 r3 r4)\<lparr>x := Some 0.5, theta := Some b\<rparr>) = Inr v \<and>
            u < v \<and> 0 < v)"
proof -
  from assms have le: "\<bar>b\<bar> \<le> 12 / 360 * 2 * pi" and la: "\<bar>a\<bar> \<le> 12 / 360 * 2 * pi"
    by simp_all
  have "\<bar>a\<bar> ^ 2 < \<bar>b\<bar> ^ 2"
    using assms(1) by (intro power_strict_mono) simp_all
  then have "a ^ 2 < b ^ 2" and "0 < b ^ 2"
    using assms(1) by auto
  with le la show ?thesis
    by (simp add: failureMarginLoss_spec_new_CartPole min_absorb1)
qed

text \<open>
  The statements of \<^verbatim>\<open>forward\<close> after the first, which no call reaches, update each
  position with the velocity from before the step and each velocity with \<open>tau\<close> times the
  acceleration; but their angular acceleration is not that of the specification, the force
  not being divided by the total mass. With force 1 in the upright state at rest the two
  differ.
\<close>

lemma forward_body_defined:
  "forward_body force
     (this\<lparr>x := Some xv, xDot := Some xd, theta := Some th, thetaDot := Some thd\<rparr>) =
     Inr (this\<lparr>x := Some (tau this * xd + xv),
              xDot := Some (tau this * xAcc_code this force th thd + xd),
              theta := Some (tau this * thd + th),
              thetaDot := Some (tau this * thetaAcc_code this force th thd + thd),
              isDone := \<bar>tau this * xd + xv\<bar> > xThreshold this \<or>
                        \<bar>tau this * thd + th\<bar> > thetaThreshold this\<rparr>)"
proof -
  have beyond: "(a < - t \<or> t < a \<or> b < - u \<or> u < b) = (\<bar>a\<bar> > t \<or> \<bar>b\<bar> > u)"
    for a t b u :: real
    by auto
  show ?thesis
    by (simp add: forward_body_def Let_def done_CartPole_def thetaAcc_code_def xAcc_code_def
        beyond)
qed

lemma thetaAcc_code_differs_from_spec:
  "thetaAcc_code (new_CartPole r1 r2 r3 r4) 1 0 0 = - 66 / 41"
  "thetaAcc_spec (new_CartPole r1 r2 r3 r4) 1 0 0 = - 60 / 41"
  by (simp_all add: thetaAcc_code_def thetaAcc_spec_def new_CartPole_def setRandomState_def)

text \<open>
  The upright pole at rest stays at rest under force 0; a step sets \<^verbatim>\<open>isDone\<close> when the
  cart stands beyond \<open>xThreshold\<close>.
\<close>

lemma rest_at_fields:
  "x (rest_at xv d) = Some xv" "theta (rest_at xv d) = Some 0" "isDone (rest_at xv d) = d"
  "xThreshold (rest_at xv d) = 2.4" "thetaThreshold (rest_at xv d) = 12 / 360 * 2 * pi"
  by (simp_all add: rest_at_def)

lemma forward_from_rest:
  "forward_from 0 net (rest_at xv d) = Inr (rest_at xv (\<bar>xv\<bar> > 2.4))"
proof -
  have beyond: "(xv < - (12 / 5) \<or> 12 < xv * 5) = (12 < \<bar>xv\<bar> * 5)"
    by (auto simp: abs_if)
  show ?thesis
    unfolding forward_from_def rest_at_def
    by (subst CartPole.surjective [of "new_CartPole 0.5 0.5 0.5 0.5"])
      (simp add: forward_body_def done_CartPole_def Let_def new_CartPole_def
        setRandomState_def beyond)
qed

lemma failureMarginLoss_spec_rest:
  "failureMarginLoss_spec (rest_at xv d) = Inr ((min \<bar>xv - 0.5\<bar> 2.4) ^ 2 * 0.01)"
  using failureMarginLoss_spec_closed_form
    [where this = "(new_CartPole 0.5 0.5 0.5 0.5)
        \<lparr>isDone := d, xDot := Some 0, thetaDot := Some 0\<rparr>" and xv = xv and th = 0]
  by (simp add: rest_at_def)


section \<open>The termination check\<close>

text \<open>
  Claim C9. For a simulator whose \<open>x\<close> and \<open>theta\<close> hold numbers, the termination check
  returns true exactly when the absolute value of \<open>x\<close> is strictly greater than
  \<open>xThreshold\<close> or the absolute value of \<open>theta\<close> is strictly greater than
  \<open>thetaThreshold\<close>; a state on a threshold or inside both is not terminal.
\<close>

theorem done_iff_beyond_threshold:
  "done_CartPole (this\<lparr>x := Some xv, theta := Some th\<rparr>) =
     Inr (\<bar>xv\<bar> > xThreshold this \<or> \<bar>th\<bar> > thetaThreshold this)"
  by (auto simp: done_CartPole_def)

section \<open>Facts about the training loop\<close>

lemmas scope_defs =
  free_identifier_def loop_scope_def train_scope_def index_scope_def

text \<open>
  With no global variable defined, the loop stops at the argument of
  \<^verbatim>\<open>maybeRenderDuringTraining\<close> on line 38 whenever its body is entered.
\<close>

lemma episode_no_globals:
  "episode [] fwd loss render net maxSteps j r =
     (if j < maxSteps then (Some (ReferenceError ''cartPoleSystem''), r) else (None, r))"
  by (subst episode.simps) (simp add: scope_defs)

lemma train_result:
  "train render net cartPole maxSteps r1 r2 r3 r4 =
     (Inl (ReferenceError (if 0 < maxSteps then ''cartPoleSystem'' else ''gradients'')),
      \<lparr>pole = cartPole, steps = 0, trace = []\<rparr>)"
  by (simp add: train_def train_with_def episode_no_globals setRandomState_def scope_defs)

subsection \<open>The invariant of the loop, for any globals and any methods\<close>

lemma applied_at_once_append:
  "applied_at_once xs \<Longrightarrow> applied_at_once (xs @ ys) = applied_at_once ys"
  by (induction xs rule: applied_at_once.induct) auto

lemma quiet_applied_at_once: "quiet es \<Longrightarrow> applied_at_once es"
  by (induction es rule: applied_at_once.induct) (auto simp: quiet_def)

lemma quiet_not_member: "quiet es \<Longrightarrow> Grads k \<notin> set es \<and> ApplyGradients k \<notin> set es"
  by (induction es) (auto simp: quiet_def)

lemma quiet_count:
  "quiet es \<Longrightarrow> count_list es (Grads k) = 0 \<and> count_list es (ApplyGradients k) = 0"
  using quiet_not_member [of es k] by simp

lemma quiet_append: "quiet xs \<Longrightarrow> quiet ys \<Longrightarrow> quiet (xs @ ys)"
  by (simp add: quiet_def)

lemma trace_inv_quiet: "trace_inv j tr \<Longrightarrow> quiet es \<Longrightarrow> trace_inv j (tr @ es)"
  by (auto simp: trace_inv_def applied_at_once_append quiet_applied_at_once quiet_count)

lemma trace_inv_block:
  "trace_inv j tr \<Longrightarrow> trace_inv (j + 1) (tr @ [Grads j, ApplyGradients j, Dispose j])"
  by (auto simp: trace_inv_def applied_at_once_append)

lemma unroll_trace:
  "unroll fwd net k r = (res, r') \<Longrightarrow> \<exists>es. trace r' = trace r @ es \<and> quiet es"
proof (induction k arbitrary: r)
  case 0
  then show ?case by (auto simp: quiet_def)
next
  case (Suc k)
  show ?case
  proof (cases "fwd net (pole r)")
    case (Inl e)
    with Suc.prems show ?thesis by (auto simp: quiet_def)
  next
    case (Inr p)
    with Suc.prems
    have "unroll fwd net k (r\<lparr>pole := p, steps := steps r + 1, trace := trace r @ [Forward]\<rparr>)
            = (res, r')"
      by simp
    from Suc.IH [OF this] obtain es
      where "trace r' = (trace r @ [Forward]) @ es" and "quiet es" by auto
    then show ?thesis
      by (intro exI [of _ "Forward # es"]) (auto simp: quiet_def)
  qed
qed

lemma block_f_trace:
  "block_f fwd loss net r = (res, r') \<Longrightarrow> \<exists>es. trace r' = trace r @ es \<and> quiet es"
  by (auto simp: block_f_def split: prod.splits option.splits sum.splits dest: unroll_trace)

lemma maybeRenderDuringTraining_trace:
  "\<exists>es. trace (maybeRenderDuringTraining render r) = trace r @ es \<and> quiet es"
  by (auto simp: maybeRenderDuringTraining_def quiet_def)

lemma episode_trace_inv:
  "trace_inv j (trace r) \<Longrightarrow> episode globals fwd loss render net maxSteps j r = (res, r') \<Longrightarrow>
   \<exists>j'. trace_inv j' (trace r')"
proof (induction globals fwd loss render net maxSteps j r rule: episode.induct)
  case (1 globals fwd loss render net maxSteps j r)
  show ?case
  proof (cases "j < maxSteps")
    case False
    with "1.prems" show ?thesis by (subst (asm) episode.simps) auto
  next
    case lt: True
    show ?thesis
    proof (cases "free_identifier (loop_scope @ globals) ''cartPoleSystem''")
      case (Inl e)
      with lt "1.prems" show ?thesis by (subst (asm) episode.simps) auto
    next
      case bound: (Inr u)
      obtain b r1 where blk: "block_f fwd loss net (maybeRenderDuringTraining render r) = (b, r1)"
        by (cases "block_f fwd loss net (maybeRenderDuringTraining render r)")
      from block_f_trace [OF blk] maybeRenderDuringTraining_trace [of render r]
      obtain es where "trace r1 = trace r @ es" and "quiet es"
        by (auto dest: quiet_append)
      with "1.prems"(1) have inv1: "trace_inv j (trace r1)"
        by (simp add: trace_inv_quiet)
      show ?thesis
      proof (cases b)
        case (Inl e)
        with lt bound blk "1.prems"(2) have "r' = r1"
          by (subst (asm) episode.simps) auto
        with inv1 show ?thesis by blast
      next
        case (Inr l)
        define r2 where "r2 = r1\<lparr>trace := trace r1 @ [Grads j, ApplyGradients j, Dispose j]\<rparr>"
        have inv2: "trace_inv (j + 1) (trace r2)"
          using inv1 by (simp add: r2_def trace_inv_block)
        show ?thesis
        proof (cases "isDone (pole r2)")
          case True
          with lt bound blk Inr "1.prems"(2) have "r' = r2"
            by (subst (asm) episode.simps) (auto simp: r2_def Let_def)
          with inv2 show ?thesis by blast
        next
          case False
          have inv3: "trace_inv (j + 1) (trace (r2\<lparr>trace := trace r2 @ [NextFrame]\<rparr>))"
            using inv2 by (simp add: trace_inv_quiet quiet_def)
          from lt bound blk Inr False "1.prems"(2)
          have run: "episode globals fwd loss render net maxSteps (j + 1)
                       (r2\<lparr>trace := trace r2 @ [NextFrame]\<rparr>) = (res, r')"
            by (subst (asm) episode.simps) (auto simp: r2_def Let_def)
          show ?thesis
            by (rule "1.IH" [OF lt bound blk [symmetric] Inr r2_def False inv3 run])
        qed
      qed
    qed
  qed
qed

lemma train_with_trace_inv:
  "\<exists>j. trace_inv j (trace (snd (train_with globals reset fwd loss render net cartPole maxSteps)))"
proof -
  obtain res r where ep: "episode globals fwd loss render net maxSteps 0
      \<lparr>pole = reset cartPole, steps = 0, trace = []\<rparr> = (res, r)"
    by (cases "episode globals fwd loss render net maxSteps 0
      \<lparr>pole = reset cartPole, steps = 0, trace = []\<rparr>")
  have "trace_inv 0 (trace \<lparr>pole = reset cartPole, steps = 0, trace = []\<rparr>)"
    by (simp add: trace_inv_def)
  from episode_trace_inv [OF this ep] obtain j where inv: "trace_inv j (trace r)" ..
  have "trace_inv j (trace r @ [ApplyGradients_after_loop, Dispose_after_loop])"
    using inv by (rule trace_inv_quiet) (simp add: quiet_def)
  with inv ep show ?thesis
    by (auto simp: train_with_def split: option.splits sum.splits)
qed

text \<open>
  Whatever the global object defines and whatever the methods of the simulator do, the
  gradients of a block are applied directly after they were computed (lines 48 and 49), as
  often as they were computed and at most once.
\<close>

lemma train_with_applies_at_once:
  "applied_at_once (trace (snd (train_with globals reset fwd loss render net cartPole maxSteps))) \<and>
   count_list (trace (snd (train_with globals reset fwd loss render net cartPole maxSteps)))
       (ApplyGradients j) =
     count_list (trace (snd (train_with globals reset fwd loss render net cartPole maxSteps)))
       (Grads j) \<and>
   count_list (trace (snd (train_with globals reset fwd loss render net cartPole maxSteps)))
       (ApplyGradients j) \<le> 1"
  using train_with_trace_inv [of globals reset fwd loss render net cartPole maxSteps]
  by (auto simp: trace_inv_def)

subsection \<open>Whole blocks\<close>










subsection \<open>An upper bound on the number of steps\<close>





subsection \<open>Calls that enter the body of the loop\<close>







subsection \<open>The loop run at the upright pole at rest\<close>




text \<open>
  A call with \<^verbatim>\<open>maxSteps\<close> 1 on the pole at rest inside the bounds runs one block of 8
  steps, applies its gradients, and calls \<^verbatim>\<open>applyGradients\<close> once more after the loop.
\<close>

lemma run_rest_inside:
  "train_with globals_bound (setRandomState 0.5 0.5 0.5 0.5) (forward_from 0)
     failureMarginLoss_spec False () (rest_at 0 False) 1 =
   (Inr 8,
    \<lparr>pole = rest_at 0 False, steps = 8,
     trace = [Forward, Forward, Forward, Forward, Forward, Forward, Forward, Forward,
       Grads 0, ApplyGradients 0, Dispose 0, NextFrame,
       ApplyGradients_after_loop, Dispose_after_loop]\<rparr>)"
  apply (simp add: train_with_def setRandomState_def)
  apply (subst episode.simps)
  apply (simp add: scope_defs globals_bound_def block_f_def seqLength_def
      maybeRenderDuringTraining_def eval_nat_numeral forward_from_rest
      failureMarginLoss_spec_rest rest_at_fields Let_def)
  apply (subst episode.simps)
  apply (simp add: scope_defs globals_bound_def)
  done


section \<open>The claims about the training loop\<close>

text \<open>
  Claim C2, as amended. Every call of \<^verbatim>\<open>train\<close> ends by a \<^verbatim>\<open>ReferenceError\<close>, with no
  step of the simulation run, no gradients applied and the simulator as it was passed: when
  \<^verbatim>\<open>maxSteps\<close> is above 0 the error is for \<^verbatim>\<open>cartPoleSystem\<close>, in the first iteration of
  the loop; otherwise the loop body does not run and the error is for \<^verbatim>\<open>gradients\<close>, read
  after the loop.
\<close>

theorem train_raises_ReferenceError:
  "train render net cartPole maxSteps r1 r2 r3 r4 =
     (Inl (ReferenceError (if 0 < maxSteps then ''cartPoleSystem'' else ''gradients'')),
      \<lparr>pole = cartPole, steps = 0, trace = []\<rparr>)"
  by (rule train_result)

text \<open>
  The claim as stated fails for \<^verbatim>\<open>maxSteps\<close> 0: there is no first iteration, and the
  identifier that raises is \<^verbatim>\<open>gradients\<close>.
\<close>

theorem train_maxSteps_zero_counterexample:
  "fst (train False () (new_CartPole 0.5 0.5 0.5 0.5) 0 0.5 0.5 0.5 0.5) =
     Inl (ReferenceError ''gradients'') \<and>
   fst (train False () (new_CartPole 0.5 0.5 0.5 0.5) 0 0.5 0.5 0.5 0.5) \<noteq>
     Inl (ReferenceError ''cartPoleSystem'')"
  by (simp add: train_result)

text \<open>
  Claim C3 is not met by the code. A call with \<^verbatim>\<open>maxSteps\<close> 1 as the repository makes
  it ends by the \<^verbatim>\<open>ReferenceError\<close> of the first iteration: no gradients are computed and
  \<^verbatim>\<open>applyGradients\<close> is never called. And line 59 calls \<^verbatim>\<open>applyGradients\<close> once more
  after the loop: where the body of the loop runs, a call with one block applies the
  gradients of the block and then, the loop left, makes that further call.
\<close>

theorem train_applies_no_gradients:
  "train False () (new_CartPole 0.5 0.5 0.5 0.5) 1 0.5 0.5 0.5 0.5 =
     (Inl (ReferenceError ''cartPoleSystem''),
      \<lparr>pole = new_CartPole 0.5 0.5 0.5 0.5, steps = 0, trace = []\<rparr>) \<and>
   trace (snd (train_with globals_bound (setRandomState 0.5 0.5 0.5 0.5) (forward_from 0)
     failureMarginLoss_spec False () (rest_at 0 False) 1)) =
     [Forward, Forward, Forward, Forward, Forward, Forward, Forward, Forward,
      Grads 0, ApplyGradients 0, Dispose 0, NextFrame,
      ApplyGradients_after_loop, Dispose_after_loop]"
  using run_rest_inside by (simp add: train_result)







section \<open>The claims about the simulator\<close>

text \<open>
  Claim C1 is not met by the code. \<^verbatim>\<open>setRandomState\<close> assigns none of the values it
  draws and does not touch \<^verbatim>\<open>isDone\<close>: the simulator is after the call what it was before.
  After the constructor the four state variables are undefined (\<open>new_CartPole_state\<close>).
\<close>

theorem setRandomState_assigns_nothing:
  "setRandomState r1 r2 r3 r4 this = this"
  by (simp add: setRandomState_def)

text \<open>
  Claim C6 is not met by the code. On every simulator whose \<open>x\<close> holds a number,
  \<^verbatim>\<open>lossFn\<close> throws an \<^verbatim>\<open>Error\<close> in the call of \<^verbatim>\<open>tf.min\<close> on line 192 and returns no
  loss, inside the bounds as outside.
\<close>

theorem lossFn_raises_Error:
  "lossFn (this\<lparr>x := Some xv, theta := Some th\<rparr>) =
     Inl (Error ''All values in axis param must be in range [-0, 0)'')"
  by (simp add: lossFn_def tf_min_def Let_def)

text \<open>
  Claim C10 is not met by the code. At \<open>x\<close> = 0.5, \<open>theta\<close> = 0 and at \<open>x\<close> = 0.5,
  \<open>theta\<close> = 0.1 (below \<open>thetaThreshold\<close>) \<^verbatim>\<open>lossFn\<close> throws the same \<^verbatim>\<open>Error\<close>: there is no
  loss to be zero, positive or increasing. (The loss of the specification has the three
  properties: \<open>failureMarginLoss_spec_increasing\<close>.)
\<close>

theorem lossFn_at_centre_raises_Error:
  "lossFn ((new_CartPole 0.5 0.5 0.5 0.5)\<lparr>x := Some 0.5, theta := Some 0\<rparr>) =
     Inl (Error ''All values in axis param must be in range [-0, 0)'') \<and>
   lossFn ((new_CartPole 0.5 0.5 0.5 0.5)\<lparr>x := Some 0.5, theta := Some 0.1\<rparr>) =
     Inl (Error ''All values in axis param must be in range [-0, 0)'')"
  by (simp add: lossFn_def tf_min_def Let_def)

text \<open>
  Claim C8 is not met by the code. Every call of \<^verbatim>\<open>forward\<close> throws a
  \<^verbatim>\<open>ReferenceError\<close> for the identifier \<^verbatim>\<open>inputs\<close> in its first statement: no
  acceleration is computed and no state variable advances.
\<close>

theorem forward_raises_ReferenceError:
  "forward net this = Inl (ReferenceError ''inputs'')"
  by (simp add: forward_def free_identifier_def cart_pole_scope_def)

section \<open>The claim about the validation of the configuration\<close>

lemma click_train_invalid:
  assumes "\<not> js_gt trainIterations 0 \<or> \<not> js_gt maxSteps 1"
  shows "\<exists>msg. click_train trainIterations maxSteps learningRate render net cartPole rnd
           (s\<lparr>trainButtonText := ''Train''\<rparr>) =
         (Some (Error msg), s\<lparr>trainButtonText := ''Stop''\<rparr>)"
  using assms by (auto simp: click_train_def Let_def js_gt_def split: option.splits)

lemma click_train_valid:
  assumes "js_gt trainIterations 0" and "js_gt maxSteps 1"
  shows "click_train trainIterations maxSteps learningRate render net cartPole rnd
           (s\<lparr>trainButtonText := ''Train''\<rparr>) =
         (Some (ReferenceError ''onIterationEnd''),
          s\<lparr>trainButtonText := ''Stop'', optimizer := Some learningRate\<rparr>)"
  using assms
  by (auto simp: click_train_def Let_def js_gt_def free_identifier_def click_scope_def
      ui_scope_def split: option.splits)

text \<open>
  Claim C7, as amended. A click on the train button with a number of iterations that is not
  above 0 or a number of steps that is not above 1 (or with either not a number) throws an
  \<^verbatim>\<open>Error\<close> before the optimizer is made and before any call of \<^verbatim>\<open>train\<close>. The learning
  rate is not validated: when the two numbers are valid the optimizer is made with the
  learning rate as entered, whatever it is.
\<close>

theorem click_train_validation:
  "(if js_gt trainIterations 0 \<and> js_gt maxSteps 1
    then optimizer (snd (click_train trainIterations maxSteps learningRate render net cartPole
           rnd (s\<lparr>trainButtonText := ''Train''\<rparr>))) = Some learningRate
    else (\<exists>msg. fst (click_train trainIterations maxSteps learningRate render net cartPole
                  rnd (s\<lparr>trainButtonText := ''Train''\<rparr>)) = Some (Error msg)) \<and>
         optimizer (snd (click_train trainIterations maxSteps learningRate render net cartPole
           rnd (s\<lparr>trainButtonText := ''Train''\<rparr>))) = optimizer s \<and>
         episodes (snd (click_train trainIterations maxSteps learningRate render net cartPole
           rnd (s\<lparr>trainButtonText := ''Train''\<rparr>))) = episodes s)"
proof (cases "js_gt trainIterations 0 \<and> js_gt maxSteps 1")
  case True
  then show ?thesis by (simp add: click_train_valid)
next
  case False
  then have "\<not> js_gt trainIterations 0 \<or> \<not> js_gt maxSteps 1" by simp
  from click_train_invalid [OF this, of learningRate render net cartPole rnd s]
  obtain msg where thrown:
    "click_train trainIterations maxSteps learningRate render net cartPole rnd
           (s\<lparr>trainButtonText := ''Train''\<rparr>) =
         (Some (Error msg), s\<lparr>trainButtonText := ''Stop''\<rparr>)" ..
  show ?thesis
    unfolding if_not_P [OF False] by (simp add: thrown)
qed

text \<open>
  The claim as stated fails for one iteration of at most two steps with learning rate 0:
  no \<^verbatim>\<open>Error\<close> is thrown by a validation, and the optimizer is made with rate 0.
\<close>

theorem click_train_learning_rate_counterexample:
  "fst (click_train (Some 1) (Some 2) (Some 0) False () (new_CartPole 0.5 0.5 0.5 0.5)
          half_draws idle_session) = Some (ReferenceError ''onIterationEnd'') \<and>
   optimizer (snd (click_train (Some 1) (Some 2) (Some 0) False ()
          (new_CartPole 0.5 0.5 0.5 0.5) half_draws idle_session)) = Some (Some 0)"
  by (simp add: click_train_def Let_def free_identifier_def click_scope_def ui_scope_def
      idle_session_def)

end
